theory Spec2Isabelle
  imports Complex_Main "HOL-Library.Word" "HOL-Library.AList"
begin

section \<open>Errors and arrays\<close>

text \<open>
  The exceptions the sample-file generator can raise, as values. A computation that may
  raise returns \<open>error + 'a\<close>, with \<open>Inl\<close> for the exception.
\<close>

datatype error = ValueError | IndexError | KeyError | NotImplementedError | ZeroDivisionError

text \<open>
  A numpy array of two or three dimensions is a list of rows, or a list (over time) of
  planes indexed by latitude and then longitude.
\<close>

type_synonym 'a array2 = "'a list list"
type_synonym 'a array3 = "'a list list list"

definition zeros3 :: "'a \<Rightarrow> nat \<Rightarrow> nat \<Rightarrow> nat \<Rightarrow> 'a array3" where
  "zeros3 z nt nlat nlon = replicate nt (replicate nlat (replicate nlon z))"

text \<open>
  The loop \<^verbatim>\<open>for t in times: arr[t, :, :] = f(t)\<close>: one plane is overwritten per step.
\<close>

definition assign_planes :: "(nat \<Rightarrow> 'a array2) \<Rightarrow> nat list \<Rightarrow> 'a array3 \<Rightarrow> 'a array3" where
  "assign_planes f ts arr = fold (\<lambda>t a. a[t := f t]) ts arr"

text \<open>
  The assignment \<^verbatim>\<open>arr[:, sel, :] = v\<close> with a boolean selector over the latitude axis.
\<close>

definition assign_lat_rows :: "bool list \<Rightarrow> 'a \<Rightarrow> 'a array3 \<Rightarrow> 'a array3" where
  "assign_lat_rows sel v arr =
     map (\<lambda>plane. map2 (\<lambda>row b. if b then map (\<lambda>_. v) row else row) plane sel) arr"

definition map3 :: "('a \<Rightarrow> 'b) \<Rightarrow> 'a array3 \<Rightarrow> 'b array3" where
  "map3 f arr = map (map (map f)) arr"

definition is_shape3 :: "nat \<Rightarrow> nat \<Rightarrow> nat \<Rightarrow> 'a array3 \<Rightarrow> bool" where
  "is_shape3 nt nlat nlon arr \<longleftrightarrow>
     length arr = nt \<and>
     list_all (\<lambda>plane. length plane = nlat \<and> list_all (\<lambda>row. length row = nlon) plane) arr"

section \<open>Floating-point values\<close>

text \<open>
  A float64 is modelled as an exact real number, or one of the special values an IEEE
  operation can return: an infinity (\<open>Inf True\<close> is the negative one) or NaN. Rounding of
  the finite results to 53 bits is not modelled. numpy's scalar and array division
  returns these special values (with a warning) where Python's own \<^verbatim>\<open>float\<close> division
  would raise.
\<close>

datatype npfloat = Fin real | Inf bool | NaN

fun fadd :: "npfloat \<Rightarrow> npfloat \<Rightarrow> npfloat" where
  "fadd (Fin a) (Fin b) = Fin (a + b)"
| "fadd NaN _ = NaN"
| "fadd _ NaN = NaN"
| "fadd (Inf s) (Inf s') = (if s = s' then Inf s else NaN)"
| "fadd (Inf s) (Fin _) = Inf s"
| "fadd (Fin _) (Inf s) = Inf s"

fun fmul :: "npfloat \<Rightarrow> npfloat \<Rightarrow> npfloat" where
  "fmul (Fin a) (Fin b) = Fin (a * b)"
| "fmul NaN _ = NaN"
| "fmul _ NaN = NaN"
| "fmul (Inf s) (Inf s') = Inf (s \<noteq> s')"
| "fmul (Inf s) (Fin b) = (if b = 0 then NaN else Inf (s \<noteq> (b < 0)))"
| "fmul (Fin a) (Inf s) = (if a = 0 then NaN else Inf (s \<noteq> (a < 0)))"

fun fsin :: "npfloat \<Rightarrow> npfloat" where
  "fsin (Fin a) = Fin (sin a)"
| "fsin _ = NaN"

text \<open>Division of two finite float64 values; the divisor zero is the positive zero.\<close>

definition np_divide :: "real \<Rightarrow> real \<Rightarrow> npfloat" where
  "np_divide a b =
     (if b \<noteq> 0 then Fin (a / b) else if a = 0 then NaN else Inf (a < 0))"

definition deg2rad :: "real \<Rightarrow> real" where
  "deg2rad x = x * (pi / 180)"

definition fdeg2rad :: "npfloat \<Rightarrow> npfloat" where
  "fdeg2rad x = fmul x (Fin (pi / 180))"

text \<open>\<^verbatim>\<open>np.round\<close>: scale, round half to even, scale back.\<close>

definition rint :: "real \<Rightarrow> int" where
  "rint x =
     (let f = \<lfloor>x\<rfloor>; d = x - of_int f in
      if d < 1 / 2 then f else if d > 1 / 2 then f + 1 else if even f then f else f + 1)"

definition np_round :: "nat \<Rightarrow> real \<Rightarrow> real" where
  "np_round decimals x = of_int (rint (x * 10 ^ decimals)) / 10 ^ decimals"

fun fround :: "nat \<Rightarrow> npfloat \<Rightarrow> npfloat" where
  "fround decimals (Fin a) = Fin (np_round decimals a)"
| "fround decimals (Inf s) = Inf s"
| "fround decimals NaN = NaN"

text \<open>
  The float64 nearest to a real number, ties to the even significand of 53 bits: with
  \<open>2\<^sup>e \<le> \<bar>x\<bar> < 2\<^sup>e\<^sup>+\<^sup>1\<close> it is a multiple of \<open>2\<^sup>e\<^sup>-\<^sup>5\<^sup>2\<close>. The exponent is unbounded here:
  overflow to an infinity and the subnormal numbers are not modelled.
\<close>

definition pow2 :: "int \<Rightarrow> real" where
  "pow2 k = (if 0 \<le> k then 2 ^ nat k else 1 / 2 ^ nat (- k))"

definition float_exponent :: "real \<Rightarrow> int" where
  "float_exponent x = \<lfloor>log 2 \<bar>x\<bar>\<rfloor>"

definition fl64 :: "real \<Rightarrow> real" where
  "fl64 x =
     (if x = 0 then 0
      else of_int (rint (x / pow2 (float_exponent x - 52))) * pow2 (float_exponent x - 52))"

text \<open>
  Storing a float64 into a uint8 array truncates towards zero. What a NaN or an infinity
  becomes is left to the platform by numpy; it is the parameter \<open>invalid\<close>.
\<close>

definition trunc :: "real \<Rightarrow> int" where
  "trunc x = (if 0 \<le> x then \<lfloor>x\<rfloor> else \<lceil>x\<rceil>)"

fun to_uint8 :: "8 word \<Rightarrow> npfloat \<Rightarrow> 8 word" where
  "to_uint8 invalid (Fin a) = word_of_int (trunc a)"
| "to_uint8 invalid _ = invalid"

text \<open>
  What the generator takes from its environment: \<^verbatim>\<open>scipy.ndimage.rotate\<close> (called with
  \<^verbatim>\<open>reshape=False\<close> on a boolean array) and the result of casting NaN to uint8.
\<close>

record platform =
  rotate :: "bool array2 \<Rightarrow> real \<Rightarrow> bool array2"
  nan_to_uint8 :: "8 word"

section \<open>Record status and masking\<close>

text \<open>
  \<^verbatim>\<open>RecordStatus.get_record_status\<close>: one code per position of the time axis, 1 where the
  position is in \<^verbatim>\<open>tvoid\<close> and 0 elsewhere, stored as uint8.
\<close>

record RecordStatus =
  time :: "int list"
  tvoid :: "int list"

definition get_record_status :: "RecordStatus \<Rightarrow> 8 word list" where
  "get_record_status rs =
     map (\<lambda>i. if int i \<in> set (tvoid rs) then 1 else 0) [0..<length (RecordStatus.time rs)]"

text \<open>
  \<^verbatim>\<open>Mask\<close> holds the void positions, a list of Python integers.
\<close>

record Mask =
  void_timestamps :: "int list"

text \<open>
  An xarray Dataset over the dimensions time, lat and lon: the time coordinate if it has
  one, the data variables in insertion order, and the attributes. xarray keeps all
  variables of a dataset at one size per dimension.
\<close>

record 'v Dataset =
  time_coord :: "int list option"
  data_vars :: "(string \<times> 'v array3) list"
  attrs :: "(string \<times> string) list"

text \<open>
  \<^verbatim>\<open>ds["time"]\<close>: the time coordinate; for a dataset that has the dimension but no
  coordinate for it, the positions \<open>0, \<dots>, n - 1\<close>; KeyError without such a dimension.
\<close>

definition ds_getitem_time :: "'v Dataset \<Rightarrow> error + int list" where
  "ds_getitem_time ds =
     (case time_coord ds of
        Some ts \<Rightarrow> Inr ts
      | None \<Rightarrow> (case data_vars ds of
                  [] \<Rightarrow> Inl KeyError
                | (_, a) # _ \<Rightarrow> Inr (map int [0..<length a])))"

text \<open>
  Indexing an array with a list of integers: a negative index counts from the end, and
  an index out of range raises IndexError.
\<close>

fun getitem_positions :: "'a list \<Rightarrow> int list \<Rightarrow> error + 'a list" where
  "getitem_positions xs [] = Inr []"
| "getitem_positions xs (i # rest) =
     (let n = int (length xs); j = (if i < 0 then i + n else i) in
      if 0 \<le> j \<and> j < n
      then (case getitem_positions xs rest of
              Inl e \<Rightarrow> Inl e
            | Inr ys \<Rightarrow> Inr (xs ! nat j # ys))
      else Inl IndexError)"

text \<open>
  \<^verbatim>\<open>xs.isin(test)\<close> marks the elements of \<open>xs\<close> that occur in \<open>test\<close>.
  \<^verbatim>\<open>a.where(cond, other)\<close> keeps \<open>a\<close> where \<open>cond\<close> holds and puts \<open>other\<close> elsewhere; here
  \<open>cond\<close> runs along the time axis and is broadcast over latitude and longitude.
\<close>

definition isin :: "'a list \<Rightarrow> 'a list \<Rightarrow> bool list" where
  "isin xs test = map (\<lambda>x. x \<in> set test) xs"

definition xr_where :: "'v array3 \<Rightarrow> bool list \<Rightarrow> 'v \<Rightarrow> 'v array3" where
  "xr_where a cond other =
     map2 (\<lambda>plane c. if c then plane else map (map (\<lambda>_. other)) plane) a cond"

text \<open>
  \<^verbatim>\<open>Mask.mask_timestamps\<close>. The loop runs over the items of the dictionary
  \<^verbatim>\<open>vars_to_mask\<close>; \<^verbatim>\<open>ds[var_name]\<close> raises KeyError for a name that is not a variable, and
  the assignment replaces the variable in place.
\<close>

fun mask_loop :: "int list \<Rightarrow> int list \<Rightarrow> (string \<times> 'v) list \<Rightarrow>
    (string \<times> 'v array3) list \<Rightarrow> error + (string \<times> 'v array3) list" where
  "mask_loop tcoord time_to_mask [] vars = Inr vars"
| "mask_loop tcoord time_to_mask ((var_name, fill_value) # rest) vars =
     (let should_be_masked = isin tcoord time_to_mask in
      case map_of vars var_name of
        None \<Rightarrow> Inl KeyError
      | Some a \<Rightarrow>
          mask_loop tcoord time_to_mask rest
            (AList.update var_name (xr_where a (map Not should_be_masked) fill_value) vars))"

definition mask_timestamps ::
    "Mask \<Rightarrow> 'v Dataset \<Rightarrow> (string \<times> 'v) list \<Rightarrow> error + 'v Dataset" where
  "mask_timestamps m ds vars_to_mask =
     (case ds_getitem_time ds of
        Inl e \<Rightarrow> Inl e
      | Inr tcoord \<Rightarrow>
          (case getitem_positions tcoord (void_timestamps m) of
             Inl e \<Rightarrow> Inl e
           | Inr time_to_mask \<Rightarrow>
               (case mask_loop tcoord time_to_mask vars_to_mask (data_vars ds) of
                  Inl e \<Rightarrow> Inl e
                | Inr vs \<Rightarrow> Inr (ds\<lparr>data_vars := vs\<rparr>))))"

text \<open>
  A cell of a data variable: float64 (\<^verbatim>\<open>cfc_dm\<close>, \<^verbatim>\<open>sdu\<close>) or uint8 (\<^verbatim>\<open>nobs\<close>, \<^verbatim>\<open>quality\<close>).
\<close>

datatype cell = F npfloat | U8 "8 word"

section \<open>Clouds\<close>

record Clouds =
  time :: "int list"
  lon :: "real list"
  lat :: "real list"
  mlon :: "real array2"
  mlat :: "real array2"
  mask :: Mask

text \<open>
  \<^verbatim>\<open>np.meshgrid(lon, lat)\<close>: two arrays with one row per latitude and one column per
  longitude, the first repeating the longitudes and the second the latitudes.
\<close>

definition meshgrid :: "'a list \<Rightarrow> 'a list \<Rightarrow> 'a array2 \<times> 'a array2" where
  "meshgrid xs ys = (map (\<lambda>_. xs) ys, map (\<lambda>y. map (\<lambda>_. y) xs) ys)"

definition Clouds_init :: "int list \<Rightarrow> real list \<Rightarrow> real list \<Rightarrow> Mask \<Rightarrow> Clouds" where
  "Clouds_init tm lons lats msk =
     (let (gx, gy) = meshgrid lons lats in
      \<lparr>Clouds.time = tm, lon = lons, lat = lats, mlon = gx, mlat = gy, mask = msk\<rparr>)"

text \<open>
  \<^verbatim>\<open>Clouds._get_cfc\<close>: the plane of timestep \<open>t\<close>, the loop that stores the planes, the
  validity filter (a value that is neither below 10 nor above 20 becomes NaN) and the
  rounding to two decimals.
\<close>

definition cfc_plane :: "Clouds \<Rightarrow> nat \<Rightarrow> real array2" where
  "cfc_plane c t =
     (let lon_term = map (map (\<lambda>x. (sin (real t / 5 * deg2rad x)) ^ 2)) (mlon c);
          lat_term = map (map (\<lambda>y. (cos (real t / 10 * deg2rad y)) ^ 2)) (mlat c)
      in map2 (map2 (\<lambda>a b. 100 * a * b)) lon_term lat_term)"

definition get_cfc :: "Clouds \<Rightarrow> npfloat array3" where
  "get_cfc c =
     (let nt = length (Clouds.time c);
          cfc = zeros3 0 nt (length (Clouds.lat c)) (length (Clouds.lon c));
          cfc = assign_planes (cfc_plane c) [0..<nt] cfc;
          cfc = map3 (\<lambda>v. if v < 10 \<or> v > 20 then Fin v else NaN) cfc
      in map3 (fround 2) cfc)"

text \<open>
  \<^verbatim>\<open>Clouds._get_nobs\<close>. The minimum and the maximum of an empty array raise ValueError,
  and so does \<^verbatim>\<open>max\<close> of the empty list of time positions. The span term divides by
  \<^verbatim>\<open>float(tmax)\<close>; its numerator is a numpy float64.
\<close>

definition span_term :: "real \<Rightarrow> real \<Rightarrow> nat \<Rightarrow> nat \<Rightarrow> npfloat" where
  "span_term lon_min lon_max t tmax = np_divide ((lon_max - lon_min) / 2 * real t) (real tmax)"

definition nobs_value :: "real \<Rightarrow> real \<Rightarrow> nat \<Rightarrow> nat \<Rightarrow> real \<Rightarrow> real \<Rightarrow> npfloat" where
  "nobs_value lon_min lon_max t tmax x y =
     (let s = fsin (fmul (fmul (Fin (real t / 5)) (fdeg2rad (fadd (Fin x) (span_term lon_min lon_max t tmax))))
                         (Fin (deg2rad y)))
      in fmul (Fin 96) (fmul s s))"

definition nobs_plane :: "platform \<Rightarrow> Clouds \<Rightarrow> real \<Rightarrow> real \<Rightarrow> nat \<Rightarrow> nat \<Rightarrow> 8 word array2" where
  "nobs_plane p c lon_min lon_max tmax t =
     map2 (map2 (\<lambda>x y. to_uint8 (nan_to_uint8 p) (nobs_value lon_min lon_max t tmax x y)))
       (mlon c) (mlat c)"

definition get_nobs :: "platform \<Rightarrow> Clouds \<Rightarrow> error + 8 word array3" where
  "get_nobs p c =
     (case Clouds.lon c of
        [] \<Rightarrow> Inl ValueError
      | x # xs \<Rightarrow>
          (let lon_min = fold min xs x;
               lon_max = fold max xs x;
               nt = length (Clouds.time c);
               nobs = zeros3 0 nt (length (Clouds.lat c)) (length (Clouds.lon c));
               times = [0..<nt]
           in case times of
                [] \<Rightarrow> Inl ValueError
              | t0 # ts \<Rightarrow>
                  (let tmax = fold max ts t0
                   in Inr (assign_planes (nobs_plane p c lon_min lon_max tmax) times nobs))))"

text \<open>
  \<^verbatim>\<open>Clouds._get_quality\<close>: three assignments through boolean selectors over the latitudes.
\<close>

definition get_quality :: "Clouds \<Rightarrow> 8 word array3" where
  "get_quality c =
     (let lats = Clouds.lat c;
          lons = Clouds.lon c;
          qual = zeros3 0 (length (Clouds.time c)) (length lats) (length lons);
          low_lats = map (\<lambda>y. \<bar>y\<bar> < 30) lats;
          med_lats = map (\<lambda>y. \<bar>y\<bar> > 30 \<and> \<bar>y\<bar> < 65) lats;
          hi_lats = map (\<lambda>y. \<bar>y\<bar> > 65) lats;
          qual = assign_lat_rows low_lats 0 qual;
          qual = assign_lat_rows med_lats 1 qual;
          qual = assign_lat_rows hi_lats 2 qual
      in qual)"

definition Clouds_get_dataset :: "platform \<Rightarrow> Clouds \<Rightarrow> error + cell Dataset" where
  "Clouds_get_dataset p c =
     (let cfc = get_cfc c in
      case get_nobs p c of
        Inl e \<Rightarrow> Inl e
      | Inr nobs \<Rightarrow>
          mask_timestamps (Clouds.mask c)
            \<lparr>time_coord = None,
             data_vars = [(''cfc_dm'', map3 F cfc), (''nobs'', map3 U8 nobs),
                          (''quality'', map3 U8 (get_quality c))],
             attrs = [(''title'', ''Clouds''), (''variable_id'', ''cfc_dm'')]\<rparr>
            [(''cfc_dm'', F NaN), (''nobs'', U8 0)])"

section \<open>Radiation\<close>

record Radiation =
  time :: "int list"
  lon :: "real list"
  lat :: "real list"
  mask :: Mask

text \<open>
  \<^verbatim>\<open>np.ogrid[a:b:complex(0, n)]\<close> is \<^verbatim>\<open>np.linspace(a, b, n)\<close> with the end point included.
\<close>

definition linspace :: "real \<Rightarrow> real \<Rightarrow> nat \<Rightarrow> real list" where
  "linspace start stop n =
     (if n = 1 then [start]
      else map (\<lambda>i. start + real i * ((stop - start) / real (n - 1))) [0..<n])"

text \<open>
  \<^verbatim>\<open>Radiation.get_sdu\<close>: the heart mask over the scaled grid, and one rotated copy per
  timestep, stored as float64.
\<close>

definition heart_mask :: "nat \<Rightarrow> nat \<Rightarrow> bool array2" where
  "heart_mask rows cols =
     (let heart_extent = 12 / 10;
          y = map (\<lambda>v. v * heart_extent) (linspace 1 (- 1) rows);
          x = map (\<lambda>v. v * heart_extent) (linspace (- 1) 1 cols)
      in map (\<lambda>yv. map (\<lambda>xv. xv ^ 2 + (5 * yv / 4 - sqrt \<bar>xv\<bar>) ^ 2 - 1 \<le> 0) x) y)"

definition get_sdu :: "platform \<Rightarrow> Radiation \<Rightarrow> real array3" where
  "get_sdu p r =
     (let ntimes = length (Radiation.time r);
          rows = length (Radiation.lat r);
          cols = length (Radiation.lon r);
          heart = heart_mask rows cols;
          hearts = zeros3 0 ntimes rows cols
      in assign_planes
           (\<lambda>i. map (map of_bool) (rotate p heart (360 * real i / real ntimes)))
           [0..<ntimes] hearts)"

definition Radiation_get_dataset :: "platform \<Rightarrow> Radiation \<Rightarrow> error + cell Dataset" where
  "Radiation_get_dataset p r =
     mask_timestamps (Radiation.mask r)
       \<lparr>time_coord = None,
        data_vars = [(''sdu'', map3 (\<lambda>v. F (Fin v)) (get_sdu p r))],
        attrs = [(''title'', ''Clouds''), (''variable_id'', ''sdu'')]\<rparr>
       [(''sdu'', F NaN)]"

section \<open>The grid and the data tree\<close>

text \<open>
  A datetime is its number of milliseconds since the epoch.
  \<^verbatim>\<open>rrule(dtstart, until, freq=DAILY)\<close> drops the part of \<^verbatim>\<open>dtstart\<close> below one second and
  yields that instant and every following day up to and including \<^verbatim>\<open>until\<close>.
\<close>

definition day_ms :: int where
  "day_ms = 86400000"

function rrule_iter :: "int \<Rightarrow> int \<Rightarrow> int list" where
  "rrule_iter t until =
     (if t \<le> until then t # rrule_iter (t + day_ms) until else [])"
  by pat_completeness auto
termination
  by (relation "measure (\<lambda>(t, until). nat (until - t + 1))") (auto simp: day_ms_def)

declare rrule_iter.simps [simp del]

definition rrule_daily :: "int \<Rightarrow> int \<Rightarrow> int list" where
  "rrule_daily dtstart until = rrule_iter (dtstart div 1000 * 1000) until"

definition get_time :: "int \<Rightarrow> int \<Rightarrow> int list" where
  "get_time tstart tend = rrule_daily tstart tend"

text \<open>
  \<^verbatim>\<open>np.arange(start, stop, step)\<close> has \<open>\<lceil>(stop - start) / step\<rceil>\<close> elements (none when that
  is not positive) and raises for a zero step. The quotient and the elements are exact
  reals here, where numpy computes them in float64.
\<close>

definition arange :: "real \<Rightarrow> real \<Rightarrow> real \<Rightarrow> error + real list" where
  "arange start stop step =
     (if step = 0 then Inl ZeroDivisionError
      else Inr (map (\<lambda>i. start + real i * step) [0..<nat \<lceil>(stop - start) / step\<rceil>]))"

definition get_lon :: "real \<Rightarrow> real \<Rightarrow> real \<Rightarrow> error + real list" where
  "get_lon lon_min lon_max dlon =
     (case arange lon_min (lon_max + dlon) dlon of
        Inl e \<Rightarrow> Inl e
      | Inr xs \<Rightarrow> Inr (map (np_round 1) xs))"

definition get_lat :: "real \<Rightarrow> real \<Rightarrow> real \<Rightarrow> error + real list" where
  "get_lat lat_min lat_max dlat =
     (case arange lat_min (lat_max + dlat) dlat of
        Inl e \<Rightarrow> Inl e
      | Inr xs \<Rightarrow> Inr (map (np_round 1) xs))"

text \<open>
  \<^verbatim>\<open>DataTreeMaker._get_bounds\<close>. The sums and the product are those of the element type,
  each result rounded by \<open>rnd\<close>: nothing is rounded for the time axis (datetime64 and
  timedelta64 are 64-bit integers), and \<open>rnd\<close> is \<open>fl64\<close> for longitudes and latitudes.
\<close>

definition get_bounds ::
    "(real \<Rightarrow> real) \<Rightarrow> real list \<Rightarrow> real \<Rightarrow> string \<Rightarrow> error + real array2" where
  "get_bounds rnd coords resol align =
     (if align = ''left'' then Inr (map (\<lambda>c. [c, rnd (c + resol)]) coords)
      else if align = ''center''
      then Inr (map (\<lambda>c. [rnd (c - rnd (0.5 * resol)), rnd (c + rnd (0.5 * resol))]) coords)
      else Inl NotImplementedError)"

text \<open>
  \<^verbatim>\<open>xr.DataArray(np.array(rows), dims=(d1, d2))\<close>: \<^verbatim>\<open>np.array([])\<close> has one dimension, and a
  DataArray whose data and \<^verbatim>\<open>dims\<close> differ in their number of dimensions raises ValueError.
\<close>

definition DataArray2 :: "'a array2 \<Rightarrow> error + 'a array2" where
  "DataArray2 rows = (if rows = [] then Inl ValueError else Inr rows)"

definition get_time_bounds :: "int list \<Rightarrow> error + real array2" where
  "get_time_bounds tm =
     (case get_bounds (\<lambda>x. x) (map real_of_int tm) (real_of_int day_ms) ''left'' of
        Inl e \<Rightarrow> Inl e
      | Inr b \<Rightarrow> DataArray2 b)"

definition get_lon_bounds :: "real list \<Rightarrow> real \<Rightarrow> error + real array2" where
  "get_lon_bounds lons resol =
     (case get_bounds fl64 lons resol ''center'' of
        Inl e \<Rightarrow> Inl e
      | Inr b \<Rightarrow> DataArray2 b)"

definition get_lat_bounds :: "real list \<Rightarrow> real \<Rightarrow> error + real array2" where
  "get_lat_bounds lats resol =
     (case get_bounds fl64 lats resol ''center'' of
        Inl e \<Rightarrow> Inl e
      | Inr b \<Rightarrow> DataArray2 b)"

record DataTreeMaker =
  grid_resol :: real
  time :: "int list"
  lon :: "real list"
  lat :: "real list"
  time_bounds :: "real array2"
  lon_bounds :: "real array2"
  lat_bounds :: "real array2"
  clouds :: Clouds
  radiation :: Radiation
  rec_status :: RecordStatus

definition DataTreeMaker_init ::
    "int \<Rightarrow> int \<Rightarrow> real \<Rightarrow> real \<Rightarrow> real \<Rightarrow> real \<Rightarrow> real \<Rightarrow> int list \<Rightarrow> error + DataTreeMaker" where
  "DataTreeMaker_init tstart tend lon_min lon_max lat_min lat_max resol void =
     (let tm = get_time tstart tend in
      case get_lon lon_min lon_max resol of
        Inl e \<Rightarrow> Inl e
      | Inr lons \<Rightarrow>
         (case get_lat lat_min lat_max resol of
            Inl e \<Rightarrow> Inl e
          | Inr lats \<Rightarrow>
             (case get_time_bounds tm of
                Inl e \<Rightarrow> Inl e
              | Inr tb \<Rightarrow>
                 (case get_lon_bounds lons resol of
                    Inl e \<Rightarrow> Inl e
                  | Inr lonb \<Rightarrow>
                     (case get_lat_bounds lats resol of
                        Inl e \<Rightarrow> Inl e
                      | Inr latb \<Rightarrow>
                         (let msk = \<lparr>void_timestamps = void\<rparr> in
                          Inr \<lparr>grid_resol = resol, DataTreeMaker.time = tm, lon = lons, lat = lats,
                               time_bounds = tb, lon_bounds = lonb, lat_bounds = latb,
                               clouds = Clouds_init tm lons lats msk,
                               radiation = \<lparr>Radiation.time = tm, lon = lons, lat = lats, mask = msk\<rparr>,
                               rec_status = \<lparr>RecordStatus.time = tm, tvoid = void\<rparr>\<rparr>))))))"

text \<open>
  The root group: its coordinates, their bounds and the record status. The global
  attributes (which read the clock) are left out.
\<close>

record Root =
  root_time :: "int list"
  root_lon :: "real list"
  root_lat :: "real list"
  root_time_bounds :: "real array2"
  root_lon_bounds :: "real array2"
  root_lat_bounds :: "real array2"
  record_status :: "8 word list"

definition get_root :: "DataTreeMaker \<Rightarrow> Root" where
  "get_root m =
     \<lparr>root_time = DataTreeMaker.time m, root_lon = DataTreeMaker.lon m,
      root_lat = DataTreeMaker.lat m,
      root_time_bounds = time_bounds m, root_lon_bounds = lon_bounds m,
      root_lat_bounds = lat_bounds m,
      record_status = get_record_status (rec_status m)\<rparr>"

record DataTree =
  tree_root :: Root
  tree_clouds :: "cell Dataset"
  tree_radiation :: "cell Dataset"

definition get_data_tree :: "platform \<Rightarrow> DataTreeMaker \<Rightarrow> error + DataTree" where
  "get_data_tree p m =
     (let rt = get_root m in
      case Clouds_get_dataset p (clouds m) of
        Inl e \<Rightarrow> Inl e
      | Inr cds \<Rightarrow>
         (case Radiation_get_dataset p (radiation m) of
            Inl e \<Rightarrow> Inl e
          | Inr rds \<Rightarrow> Inr \<lparr>tree_root = rt, tree_clouds = cds, tree_radiation = rds\<rparr>))"

section \<open>Record status codes\<close>

text \<open>
  Claim C2. For a time axis of \<open>n\<close> positions and any void positions,
  \<open>get_record_status\<close> returns exactly \<open>n\<close> unsigned 8-bit codes; the code at position
  \<open>i\<close> is 1 if \<open>i\<close> is among the void positions and 0 otherwise, so that the code 2
  never occurs.
\<close>

theorem get_record_status_codes:
  "length (get_record_status rs) = length (RecordStatus.time rs) \<and>
   (\<forall>i<length (RecordStatus.time rs).
      get_record_status rs ! i = (if int i \<in> set (tvoid rs) then 1 else 0)) \<and>
   2 \<notin> set (get_record_status rs)"
  by (auto simp: get_record_status_def)


theorem get_record_status_codes_witness:
  "length (get_record_status \<lparr>RecordStatus.time = [10, 20, 30], tvoid = [1]\<rparr>) = 3 \<and>
   get_record_status \<lparr>RecordStatus.time = [10, 20, 30], tvoid = [1]\<rparr> ! 1 = 1 \<and>
   get_record_status \<lparr>RecordStatus.time = [10, 20, 30], tvoid = [1]\<rparr> ! 2 = 0"
  using get_record_status_codes[of "\<lparr>RecordStatus.time = [10, 20, 30], tvoid = [1]\<rparr>"]
  by simp

section \<open>Masking: void positions and the frame\<close>

lemma getitem_positions_valid:
  "\<forall>v\<in>set is. 0 \<le> v \<and> v < int (length xs) \<Longrightarrow>
   getitem_positions xs is = Inr (map (\<lambda>v. xs ! nat v) is)"
  by (induction "is") (auto simp: Let_def)

lemma isin_positions_nth:
  assumes "distinct ts" "\<forall>v\<in>set is. 0 \<le> v \<and> v < int (length ts)" "k < length ts"
  shows "isin ts (map (\<lambda>v. ts ! nat v) is) ! k \<longleftrightarrow> int k \<in> set is"
proof -
  have "ts ! k \<in> (\<lambda>v. ts ! nat v) ` set is \<longleftrightarrow> int k \<in> set is"
  proof
    assume "ts ! k \<in> (\<lambda>v. ts ! nat v) ` set is"
    then obtain v where v: "v \<in> set is" "ts ! k = ts ! nat v" by auto
    with assms have "nat v < length ts" by auto
    with v assms have "k = nat v" by (simp add: nth_eq_iff_index_eq)
    with v assms show "int k \<in> set is" by auto
  next
    assume "int k \<in> set is"
    then show "ts ! k \<in> (\<lambda>v. ts ! nat v) ` set is" by force
  qed
  with assms(3) show ?thesis by (simp add: isin_def)
qed

lemma map_of_update_alist:
  "map_of (AList.update k v al) k' = (if k' = k then Some v else map_of al k')"
  by (simp add: update_conv')

lemma mask_loop_result:
  assumes "distinct (map fst vm)" "\<forall>n\<in>set (map fst vm). map_of vars n \<noteq> None"
  shows "\<exists>vs. mask_loop ts sel vm vars = Inr vs \<and> map fst vs = map fst vars \<and>
          (\<forall>n. map_of vs n =
             (case map_of vm n of
                None \<Rightarrow> map_of vars n
              | Some fill \<Rightarrow> map_option (\<lambda>a. xr_where a (map Not (isin ts sel)) fill) (map_of vars n)))"
  using assms
proof (induction vm arbitrary: vars)
  case Nil
  then show ?case by simp
next
  case (Cons p vm)
  obtain name fill where p: "p = (name, fill)" by (cases p)
  from Cons.prems obtain a where a: "map_of vars name = Some a" by (auto simp: p)
  let ?vars' = "AList.update name (xr_where a (map Not (isin ts sel)) fill) vars"
  have d: "distinct (map fst vm)" and nin: "name \<notin> fst ` set vm"
    using Cons.prems by (auto simp: p)
  have dom': "\<forall>n\<in>set (map fst vm). map_of ?vars' n \<noteq> None"
    using Cons.prems by (auto simp: map_of_update_alist)
  from Cons.IH[OF d dom'] obtain vs where vs:
    "mask_loop ts sel vm ?vars' = Inr vs" "map fst vs = map fst ?vars'"
    "\<forall>n. map_of vs n = (case map_of vm n of None \<Rightarrow> map_of ?vars' n
        | Some fill \<Rightarrow> map_option (\<lambda>a. xr_where a (map Not (isin ts sel)) fill) (map_of ?vars' n))"
    by blast
  have keys: "map fst ?vars' = map fst vars"
    using a by (simp add: update_keys map_of_eq_None_iff[symmetric])
  have nm: "map_of vm name = None" using nin by (simp add: map_of_eq_None_iff)
  have "\<forall>n. map_of vs n =
             (case map_of (p # vm) n of
                None \<Rightarrow> map_of vars n
              | Some fill \<Rightarrow> map_option (\<lambda>a. xr_where a (map Not (isin ts sel)) fill) (map_of vars n))"
  proof
    fix n
    show "map_of vs n =
             (case map_of (p # vm) n of
                None \<Rightarrow> map_of vars n
              | Some fill \<Rightarrow> map_option (\<lambda>a. xr_where a (map Not (isin ts sel)) fill) (map_of vars n))"
    proof (cases "n = name")
      case True
      then show ?thesis using vs(3) nm a
        by (simp add: p map_of_update_alist split: option.splits)
    next
      case False
      then show ?thesis using vs(3)
        by (simp add: p map_of_update_alist split: option.splits)
    qed
  qed
  with vs keys show ?case using a by (simp add: p)
qed

lemma xr_where_nth:
  "length cond = length a \<Longrightarrow> k < length a \<Longrightarrow>
   xr_where a cond other ! k = (if cond ! k then a ! k else map (map (\<lambda>_. other)) (a ! k))"
  by (simp add: xr_where_def)

lemma mask_timestamps_result:
  assumes "ds_getitem_time ds = Inr ts" and "distinct ts"
    and "\<forall>v\<in>set (void_timestamps m). 0 \<le> v \<and> v < int (length ts)"
    and "distinct (map fst vars_to_mask)"
    and "\<forall>n\<in>set (map fst vars_to_mask). map_of (data_vars ds) n \<noteq> None"
    and "\<forall>a\<in>set (map snd (data_vars ds)). length a = length ts"
  shows "\<exists>ds'. mask_timestamps m ds vars_to_mask = Inr ds' \<and>
     time_coord ds' = time_coord ds \<and> attrs ds' = attrs ds \<and>
     map fst (data_vars ds') = map fst (data_vars ds) \<and>
     (\<forall>n a. map_of (data_vars ds) n = Some a \<longrightarrow>
        (\<exists>a'. map_of (data_vars ds') n = Some a' \<and>
          (case map_of vars_to_mask n of
             None \<Rightarrow> a' = a
           | Some fill \<Rightarrow>
               length a' = length a \<and>
               (\<forall>k<length a. a' ! k =
                  (if int k \<in> set (void_timestamps m)
                   then map (map (\<lambda>_. fill)) (a ! k) else a ! k)))))"
proof -
  let ?sel = "map (\<lambda>v. ts ! nat v) (void_timestamps m)"
  have sel: "getitem_positions ts (void_timestamps m) = Inr ?sel"
    using assms(3) by (rule getitem_positions_valid)
  from mask_loop_result[OF assms(4) assms(5), of ts ?sel] obtain vs where vs:
    "mask_loop ts ?sel vars_to_mask (data_vars ds) = Inr vs"
    "map fst vs = map fst (data_vars ds)"
    "\<forall>n. map_of vs n =
       (case map_of vars_to_mask n of
          None \<Rightarrow> map_of (data_vars ds) n
        | Some fill \<Rightarrow>
            map_option (\<lambda>a. xr_where a (map Not (isin ts ?sel)) fill) (map_of (data_vars ds) n))"
    by blast
  have res: "mask_timestamps m ds vars_to_mask = Inr (ds\<lparr>data_vars := vs\<rparr>)"
    by (simp add: mask_timestamps_def assms(1) sel vs(1))
  have cells: "case map_of vars_to_mask n of
             None \<Rightarrow> a' = a
           | Some fill \<Rightarrow>
               length a' = length a \<and>
               (\<forall>k<length a. a' ! k =
                  (if int k \<in> set (void_timestamps m)
                   then map (map (\<lambda>_. fill)) (a ! k) else a ! k))"
    if n: "map_of (data_vars ds) n = Some a" and a': "map_of vs n = Some a'" for n a a'
  proof (cases "map_of vars_to_mask n")
    case None
    with vs(3) n a' show ?thesis by simp
  next
    case (Some fill)
    from n have "a \<in> set (map snd (data_vars ds))"
      by (force dest: map_of_SomeD)
    with assms(6) have len: "length a = length ts" by blast
    from vs(3) n a' Some have eq: "a' = xr_where a (map Not (isin ts ?sel)) fill"
      by simp
    have l: "length (map Not (isin ts ?sel)) = length a"
      by (simp add: isin_def len)
    have "a' ! k = (if int k \<in> set (void_timestamps m)
                   then map (map (\<lambda>_. fill)) (a ! k) else a ! k)" if k: "k < length a" for k
    proof -
      have "isin ts ?sel ! k \<longleftrightarrow> int k \<in> set (void_timestamps m)"
        using assms(2) assms(3) k len by (simp add: isin_positions_nth)
      moreover have "k < length (isin ts ?sel)" using k len by (simp add: isin_def)
      ultimately show ?thesis using xr_where_nth[OF l k, of fill] by (simp add: eq)
    qed
    moreover have "length a' = length a" using l by (simp add: eq xr_where_def)
    ultimately show ?thesis using Some by simp
  qed
  have "\<exists>a'. map_of vs n = Some a' \<and>
          (case map_of vars_to_mask n of
             None \<Rightarrow> a' = a
           | Some fill \<Rightarrow>
               length a' = length a \<and>
               (\<forall>k<length a. a' ! k =
                  (if int k \<in> set (void_timestamps m)
                   then map (map (\<lambda>_. fill)) (a ! k) else a ! k)))"
    if n: "map_of (data_vars ds) n = Some a" for n a
  proof -
    from vs(3) n obtain a' where "map_of vs n = Some a'"
      by (cases "map_of vars_to_mask n") auto
    with cells[OF n] show ?thesis by blast
  qed
  with res vs(2) show ?thesis by simp
qed

text \<open>
  Claim C1. Take a dataset whose time coordinate values \<open>ts\<close> are pairwise distinct
  and whose variables all have \<open>length ts\<close> time positions, void positions within
  \<open>0 \<le> v < length ts\<close>, and a fill-value dictionary (distinct keys) naming variables
  of the dataset. Then \<open>mask_timestamps\<close> returns; every variable named in the
  dictionary holds its fill value in every cell of each void time position and its old
  plane at every other time position; every variable not named is unchanged, and the
  dataset has the variables of the input.
\<close>

theorem mask_timestamps_frame:
  assumes "ds_getitem_time ds = Inr ts" and "distinct ts"
    and "\<forall>v\<in>set (void_timestamps m). 0 \<le> v \<and> v < int (length ts)"
    and "distinct (map fst vars_to_mask)"
    and "\<forall>n\<in>set (map fst vars_to_mask). map_of (data_vars ds) n \<noteq> None"
    and "\<forall>a\<in>set (map snd (data_vars ds)). length a = length ts"
  shows "\<exists>ds'. mask_timestamps m ds vars_to_mask = Inr ds' \<and>
     fst ` set (data_vars ds') = fst ` set (data_vars ds) \<and>
     (\<forall>n a. map_of (data_vars ds) n = Some a \<longrightarrow>
        (\<exists>a'. map_of (data_vars ds') n = Some a' \<and>
          (case map_of vars_to_mask n of
             None \<Rightarrow> a' = a
           | Some fill \<Rightarrow>
               length a' = length a \<and>
               (\<forall>k<length a. a' ! k =
                  (if int k \<in> set (void_timestamps m)
                   then map (map (\<lambda>_. fill)) (a ! k) else a ! k)))))"
proof -
  from mask_timestamps_result[OF assms] obtain ds' where
    "mask_timestamps m ds vars_to_mask = Inr ds'"
    "map fst (data_vars ds') = map fst (data_vars ds)"
    "\<forall>n a. map_of (data_vars ds) n = Some a \<longrightarrow>
        (\<exists>a'. map_of (data_vars ds') n = Some a' \<and>
          (case map_of vars_to_mask n of
             None \<Rightarrow> a' = a
           | Some fill \<Rightarrow>
               length a' = length a \<and>
               (\<forall>k<length a. a' ! k =
                  (if int k \<in> set (void_timestamps m)
                   then map (map (\<lambda>_. fill)) (a ! k) else a ! k))))"
    by blast
  moreover from this(2) have "fst ` set (data_vars ds') = fst ` set (data_vars ds)"
    by (metis set_map)
  ultimately show ?thesis by blast
qed

theorem mask_timestamps_frame_witness:
  "\<exists>ds' a'. mask_timestamps \<lparr>void_timestamps = [1]\<rparr>
       \<lparr>time_coord = None,
        data_vars = [(''nobs'', [[[5, 6]], [[7, 8]], [[9, 10]]]), (''quality'', [[[1, 1]], [[2, 2]], [[0, 0]]])],
        attrs = []\<rparr> [(''nobs'', 0 :: int)] = Inr ds' \<and>
     map_of (data_vars ds') ''nobs'' = Some a' \<and> length a' = 3 \<and>
     a' ! 0 = [[5, 6]] \<and> a' ! 1 = [[0, 0]] \<and> a' ! 2 = [[9, 10]] \<and>
     map_of (data_vars ds') ''quality'' = Some [[[1, 1]], [[2, 2]], [[0, 0]]]"
proof -
  let ?m = "\<lparr>void_timestamps = [1]\<rparr>"
  let ?ds = "\<lparr>time_coord = None,
        data_vars = [(''nobs'', [[[5, 6]], [[7, 8]], [[9, 10]]]), (''quality'', [[[1, 1]], [[2, 2]], [[0, 0]]])],
        attrs = []\<rparr> :: int Dataset"
  let ?vm = "[(''nobs'', 0 :: int)]"
  have t: "ds_getitem_time ?ds = Inr [0, 1, 2]"
    by (simp add: ds_getitem_time_def upt_rec)
  from mask_timestamps_frame[of ?ds "[0, 1, 2]" ?m ?vm, OF t]
  obtain ds' where r: "mask_timestamps ?m ?ds ?vm = Inr ds'"
    and c: "\<forall>n a. map_of (data_vars ?ds) n = Some a \<longrightarrow>
        (\<exists>a'. map_of (data_vars ds') n = Some a' \<and>
          (case map_of ?vm n of
             None \<Rightarrow> a' = a
           | Some fill \<Rightarrow>
               length a' = length a \<and>
               (\<forall>k<length a. a' ! k =
                  (if int k \<in> set (void_timestamps ?m)
                   then map (map (\<lambda>_. fill)) (a ! k) else a ! k))))"
    by auto
  from c[rule_format, of "''quality''" "[[[1, 1]], [[2, 2]], [[0, 0]]]"]
  have q: "map_of (data_vars ds') ''quality'' = Some [[[1, 1]], [[2, 2]], [[0, 0]]]"
    by simp
  from c[rule_format, of "''nobs''" "[[[5, 6]], [[7, 8]], [[9, 10]]]"]
  obtain a' where a': "map_of (data_vars ds') ''nobs'' = Some a'" "length a' = 3"
    "\<forall>k<3. a' ! k = (if int k = 1 then map (map (\<lambda>_. 0)) ([[[5, 6]], [[7, 8]], [[9, 10]]] ! k)
        else [[[5, 6]], [[7, 8]], [[9, 10]]] ! k)"
    by auto
  from a'(3) have "a' ! 0 = [[5, 6]]" "a' ! 1 = [[0, 0]]" "a' ! 2 = [[9, 10]]"
    by (simp_all)
  with r q a'(1) a'(2) show ?thesis by simp
qed


section \<open>Arrays and loops\<close>

lemma is_shape3_iff:
  "is_shape3 nt nlat nlon arr \<longleftrightarrow>
     length arr = nt \<and> (\<forall>t<nt. length (arr ! t) = nlat \<and> (\<forall>j<nlat. length (arr ! t ! j) = nlon))"
  by (auto simp: is_shape3_def list_all_length)

lemma zeros3_shape: "is_shape3 nt nlat nlon (zeros3 z nt nlat nlon)"
  by (simp add: is_shape3_iff zeros3_def)

lemma zeros3_nth:
  "t < nt \<Longrightarrow> j < nlat \<Longrightarrow> i < nlon \<Longrightarrow> zeros3 z nt nlat nlon ! t ! j ! i = z"
  by (simp add: zeros3_def)

lemma map3_shape: "is_shape3 nt nlat nlon arr \<Longrightarrow> is_shape3 nt nlat nlon (map3 f arr)"
  by (simp add: is_shape3_iff map3_def)

lemma map3_nth:
  "is_shape3 nt nlat nlon arr \<Longrightarrow> t < nt \<Longrightarrow> j < nlat \<Longrightarrow> i < nlon \<Longrightarrow>
   map3 f arr ! t ! j ! i = f (arr ! t ! j ! i)"
  by (simp add: is_shape3_iff map3_def)

lemma assign_lat_rows_shape:
  "is_shape3 nt nlat nlon arr \<Longrightarrow> length sel = nlat \<Longrightarrow>
   is_shape3 nt nlat nlon (assign_lat_rows sel v arr)"
  by (simp add: is_shape3_iff assign_lat_rows_def)

lemma assign_lat_rows_nth:
  "is_shape3 nt nlat nlon arr \<Longrightarrow> length sel = nlat \<Longrightarrow> t < nt \<Longrightarrow> j < nlat \<Longrightarrow> i < nlon \<Longrightarrow>
   assign_lat_rows sel v arr ! t ! j ! i = (if sel ! j then v else arr ! t ! j ! i)"
  by (simp add: is_shape3_iff assign_lat_rows_def)

lemma fold_update_prefix:
  "k \<le> length arr \<Longrightarrow>
   fold (\<lambda>t a. a[t := f t]) [0..<k] arr = map f [0..<k] @ drop k arr"
proof (induction k)
  case 0
  then show ?case by simp
next
  case (Suc k)
  then have k: "k < length arr" by simp
  have d: "drop k arr = arr ! k # drop (Suc k) arr"
    using k by (simp add: Cons_nth_drop_Suc)
  have "(map f [0..<k] @ drop k arr)[k := f k] = map f [0..<k] @ f k # drop (Suc k) arr"
    unfolding d by (simp add: list_update_append)
  then show ?case using Suc by simp
qed

lemma assign_planes_all:
  "length arr = n \<Longrightarrow> assign_planes f [0..<n] arr = map f [0..<n]"
  by (simp add: assign_planes_def fold_update_prefix)

section \<open>Quality flags\<close>

lemma get_quality_shape:
  "is_shape3 (length (Clouds.time c)) (length (Clouds.lat c)) (length (Clouds.lon c)) (get_quality c)"
  by (simp add: get_quality_def Let_def assign_lat_rows_shape zeros3_shape)

lemma get_quality_nth:
  assumes "t < length (Clouds.time c)" "j < length (Clouds.lat c)" "i < length (Clouds.lon c)"
  shows "get_quality c ! t ! j ! i =
    (if \<bar>Clouds.lat c ! j\<bar> > 65 then 2
     else if \<bar>Clouds.lat c ! j\<bar> > 30 \<and> \<bar>Clouds.lat c ! j\<bar> < 65 then 1
     else 0)"
  using assms
  by (simp add: get_quality_def Let_def
      assign_lat_rows_nth[where nt="length (Clouds.time c)" and nlat="length (Clouds.lat c)"
        and nlon="length (Clouds.lon c)"]
      assign_lat_rows_shape zeros3_shape zeros3_nth)

text \<open>
  Claim C5. At every time position, latitude and longitude of the grid, the quality flag
  is 0 where \<open>\<bar>lat\<bar> < 30\<close>, 1 where \<open>30 < \<bar>lat\<bar> < 65\<close>, 2 where \<open>\<bar>lat\<bar> > 65\<close>, and the
  initial 0 where \<open>\<bar>lat\<bar>\<close> is exactly 30 or exactly 65; at a fixed latitude it is the same
  at all time positions and longitudes.
\<close>

theorem get_quality_bands:
  assumes "t < length (Clouds.time c)" and "j < length (Clouds.lat c)"
    and "i < length (Clouds.lon c)"
  shows "(\<bar>Clouds.lat c ! j\<bar> < 30 \<longrightarrow> get_quality c ! t ! j ! i = 0) \<and>
         (30 < \<bar>Clouds.lat c ! j\<bar> \<and> \<bar>Clouds.lat c ! j\<bar> < 65 \<longrightarrow> get_quality c ! t ! j ! i = 1) \<and>
         (65 < \<bar>Clouds.lat c ! j\<bar> \<longrightarrow> get_quality c ! t ! j ! i = 2) \<and>
         (\<bar>Clouds.lat c ! j\<bar> = 30 \<or> \<bar>Clouds.lat c ! j\<bar> = 65 \<longrightarrow> get_quality c ! t ! j ! i = 0) \<and>
         (\<forall>t'<length (Clouds.time c). \<forall>i'<length (Clouds.lon c).
            get_quality c ! t' ! j ! i' = get_quality c ! t ! j ! i)"
  using assms by (simp add: get_quality_nth)

theorem get_quality_bands_witness:
  "get_quality (Clouds_init [0, 86400000] [0, 1] [- 70, 30, 45, 65, 10] \<lparr>void_timestamps = []\<rparr>) ! 1 ! 0 ! 1 = 2 \<and>
   get_quality (Clouds_init [0, 86400000] [0, 1] [- 70, 30, 45, 65, 10] \<lparr>void_timestamps = []\<rparr>) ! 1 ! 1 ! 1 = 0 \<and>
   get_quality (Clouds_init [0, 86400000] [0, 1] [- 70, 30, 45, 65, 10] \<lparr>void_timestamps = []\<rparr>) ! 1 ! 2 ! 1 = 1 \<and>
   get_quality (Clouds_init [0, 86400000] [0, 1] [- 70, 30, 45, 65, 10] \<lparr>void_timestamps = []\<rparr>) ! 1 ! 3 ! 1 = 0 \<and>
   get_quality (Clouds_init [0, 86400000] [0, 1] [- 70, 30, 45, 65, 10] \<lparr>void_timestamps = []\<rparr>) ! 1 ! 4 ! 1 = 0"
  using get_quality_bands[of 1 "Clouds_init [0, 86400000] [0, 1] [- 70, 30, 45, 65, 10] \<lparr>void_timestamps = []\<rparr>" 0 1]
    get_quality_bands[of 1 "Clouds_init [0, 86400000] [0, 1] [- 70, 30, 45, 65, 10] \<lparr>void_timestamps = []\<rparr>" 1 1]
    get_quality_bands[of 1 "Clouds_init [0, 86400000] [0, 1] [- 70, 30, 45, 65, 10] \<lparr>void_timestamps = []\<rparr>" 2 1]
    get_quality_bands[of 1 "Clouds_init [0, 86400000] [0, 1] [- 70, 30, 45, 65, 10] \<lparr>void_timestamps = []\<rparr>" 3 1]
    get_quality_bands[of 1 "Clouds_init [0, 86400000] [0, 1] [- 70, 30, 45, 65, 10] \<lparr>void_timestamps = []\<rparr>" 4 1]
  by (simp add: Clouds_init_def meshgrid_def)


section \<open>Cloud fraction\<close>

lemma Clouds_init_fields:
  "Clouds.time (Clouds_init tm lons lats msk) = tm"
  "Clouds.lon (Clouds_init tm lons lats msk) = lons"
  "Clouds.lat (Clouds_init tm lons lats msk) = lats"
  "Clouds.mask (Clouds_init tm lons lats msk) = msk"
  "mlon (Clouds_init tm lons lats msk) = map (\<lambda>_. lons) lats"
  "mlat (Clouds_init tm lons lats msk) = map (\<lambda>y. map (\<lambda>_. y) lons) lats"
  by (simp_all add: Clouds_init_def meshgrid_def)

lemma cfc_plane_shape:
  "length (cfc_plane (Clouds_init tm lons lats msk) t) = length lats \<and>
   (\<forall>j<length lats. length (cfc_plane (Clouds_init tm lons lats msk) t ! j) = length lons)"
  by (simp add: cfc_plane_def Clouds_init_fields)

lemma cfc_plane_nth:
  "j < length lats \<Longrightarrow> i < length lons \<Longrightarrow>
   cfc_plane (Clouds_init tm lons lats msk) t ! j ! i =
     100 * (sin (real t / 5 * deg2rad (lons ! i))) ^ 2 * (cos (real t / 10 * deg2rad (lats ! j))) ^ 2"
  by (simp add: cfc_plane_def Clouds_init_fields)

lemma cfc_raw_shape:
  "is_shape3 (length tm) (length lats) (length lons)
     (map (cfc_plane (Clouds_init tm lons lats msk)) [0..<length tm])"
  by (simp add: is_shape3_iff cfc_plane_shape)

lemma get_cfc_eq:
  "get_cfc (Clouds_init tm lons lats msk) =
     map3 (fround 2) (map3 (\<lambda>v. if v < 10 \<or> v > 20 then Fin v else NaN)
       (map (cfc_plane (Clouds_init tm lons lats msk)) [0..<length tm]))"
  by (simp add: get_cfc_def Let_def Clouds_init_fields assign_planes_all zeros3_def)

lemma get_cfc_shape:
  "is_shape3 (length tm) (length lats) (length lons) (get_cfc (Clouds_init tm lons lats msk))"
  by (simp add: get_cfc_eq map3_shape cfc_raw_shape)

lemma rint_nearest:
  "\<bar>of_int (rint x) - x\<bar> \<le> 1 / 2 \<and> (\<bar>of_int (rint x) - x\<bar> = 1 / 2 \<longrightarrow> even (rint x))"
proof -
  have f: "of_int \<lfloor>x\<rfloor> \<le> x" "x < of_int \<lfloor>x\<rfloor> + 1" by linarith+
  show ?thesis
  proof (cases "x - of_int \<lfloor>x\<rfloor> < 1 / 2")
    case True
    then have r: "rint x = \<lfloor>x\<rfloor>" by (simp add: rint_def Let_def)
    have "\<bar>of_int \<lfloor>x\<rfloor> - x\<bar> < 1 / 2" using True f by linarith
    then show ?thesis unfolding r by simp
  next
    case False
    show ?thesis
    proof (cases "x - of_int \<lfloor>x\<rfloor> > 1 / 2")
      case True
      then have r: "rint x = \<lfloor>x\<rfloor> + 1" by (simp add: rint_def Let_def)
      have "\<bar>of_int (\<lfloor>x\<rfloor> + 1) - x\<bar> < 1 / 2" using True f by simp
      then show ?thesis unfolding r by simp
    next
      case hf: False
      with False have d: "x - of_int \<lfloor>x\<rfloor> = 1 / 2" by simp
      show ?thesis
      proof (cases "even \<lfloor>x\<rfloor>")
        case True
        with d have r: "rint x = \<lfloor>x\<rfloor>" by (simp add: rint_def Let_def)
        have "\<bar>of_int \<lfloor>x\<rfloor> - x\<bar> = 1 / 2" using d by linarith
        with True show ?thesis unfolding r by simp
      next
        case False
        with d have r: "rint x = \<lfloor>x\<rfloor> + 1" by (simp add: rint_def Let_def)
        have "\<bar>of_int (\<lfloor>x\<rfloor> + 1) - x\<bar> = 1 / 2" using d by simp
        with False show ?thesis unfolding r by simp
      qed
    qed
  qed
qed

lemma nearest_int_670:
  fixes k :: int and s :: real
  assumes k: "\<bar>real_of_int k - (5000 - 2500 * s)\<bar> \<le> 1 / 2"
    and lo: "17318 / 10000 < s" and hi: "s < 17322 / 10000"
  shows "k = 670"
proof -
  from k have a: "real_of_int k - (5000 - 2500 * s) \<le> 1 / 2"
    and b: "- (1 / 2) \<le> real_of_int k - (5000 - 2500 * s)"
    by (auto simp only: abs_le_iff)
  have "real_of_int k < 671" using a lo by linarith
  moreover have "669 < real_of_int k" using b hi by linarith
  ultimately show "k = 670" by linarith
qed

text \<open>
  Claim C8. In the cloud-fraction output of a Clouds object built by its constructor,
  take the grid point at time position \<open>t\<close>, latitude \<open>lats ! j\<close> and longitude \<open>lons ! i\<close>,
  and let \<open>v\<close> be the generated value
  \<open>100 * sin\<^sup>2 (t / 5 * lon * \<pi> / 180) * cos\<^sup>2 (t / 10 * lat * \<pi> / 180)\<close>. When \<open>v\<close> lies in
  \<open>[10, 20]\<close> the point is missing (NaN). Otherwise it is \<open>v\<close> rounded to two decimals:
  \<open>k / 100\<close> for the integer \<open>k\<close> nearest to \<open>100 * v\<close>, the even one of the two when
  \<open>100 * v\<close> lies halfway. The band is tested on the unrounded value.
\<close>

theorem get_cfc_filter_then_round:
  assumes "t < length tm" and "j < length lats" and "i < length lons"
    and "v = 100 * (sin (real t / 5 * (lons ! i * pi / 180))) ^ 2 *
                   (cos (real t / 10 * (lats ! j * pi / 180))) ^ 2"
  shows "(10 \<le> v \<and> v \<le> 20 \<longrightarrow> get_cfc (Clouds_init tm lons lats msk) ! t ! j ! i = NaN) \<and>
         (v < 10 \<or> 20 < v \<longrightarrow>
            (\<exists>k::int. get_cfc (Clouds_init tm lons lats msk) ! t ! j ! i = Fin (of_int k / 100) \<and>
               \<bar>of_int k - 100 * v\<bar> \<le> 1 / 2 \<and> (\<bar>of_int k - 100 * v\<bar> = 1 / 2 \<longrightarrow> even k)))"
proof -
  let ?raw = "map (cfc_plane (Clouds_init tm lons lats msk)) [0..<length tm]"
  let ?flt = "map3 (\<lambda>v. if v < 10 \<or> v > 20 then Fin v else NaN) ?raw"
  have sh: "is_shape3 (length tm) (length lats) (length lons) ?raw"
    by (rule cfc_raw_shape)
  have raw: "?raw ! t ! j ! i = v"
    using assms by (simp add: cfc_plane_nth deg2rad_def)
  have "get_cfc (Clouds_init tm lons lats msk) ! t ! j ! i = fround 2 (?flt ! t ! j ! i)"
    unfolding get_cfc_eq using map3_shape[OF sh] assms(1-3) by (rule map3_nth)
  also have "?flt ! t ! j ! i = (if ?raw ! t ! j ! i < 10 \<or> ?raw ! t ! j ! i > 20
      then Fin (?raw ! t ! j ! i) else NaN)"
    using sh assms(1-3) by (rule map3_nth)
  finally have cell: "get_cfc (Clouds_init tm lons lats msk) ! t ! j ! i =
      fround 2 (if v < 10 \<or> v > 20 then Fin v else NaN)"
    unfolding raw .
  have band: "get_cfc (Clouds_init tm lons lats msk) ! t ! j ! i = NaN" if "10 \<le> v \<and> v \<le> 20"
    using that by (simp add: cell)
  have kept: "\<exists>k::int. get_cfc (Clouds_init tm lons lats msk) ! t ! j ! i = Fin (of_int k / 100) \<and>
               \<bar>of_int k - 100 * v\<bar> \<le> 1 / 2 \<and> (\<bar>of_int k - 100 * v\<bar> = 1 / 2 \<longrightarrow> even k)"
    if "v < 10 \<or> 20 < v"
  proof -
    have "get_cfc (Clouds_init tm lons lats msk) ! t ! j ! i = Fin (of_int (rint (100 * v)) / 100)"
      using that by (simp add: cell np_round_def mult.commute)
    with rint_nearest[of "100 * v"] show ?thesis by blast
  qed
  from band kept show ?thesis by blast
qed

theorem get_cfc_filter_then_round_witness:
  "get_cfc (Clouds_init [0, 1, 2, 3, 4, 5] [15, 30] [0, 90] \<lparr>void_timestamps = []\<rparr>) ! 5 ! 0 ! 0 =
     Fin (67 / 10) \<and>
   get_cfc (Clouds_init [0, 1, 2, 3, 4, 5] [15, 30] [0, 90] \<lparr>void_timestamps = []\<rparr>) ! 5 ! 1 ! 1 =
     NaN"
proof -
  let ?c = "Clouds_init [0, 1, 2, 3, 4, 5] [15, 30] [0, 90] \<lparr>void_timestamps = []\<rparr>"
  have s12: "(sin (pi / 12)) ^ 2 = (2 - sqrt 3) / 4"
    using cos_double_sin[of "pi / 12"] by (simp add: cos_30)
  have lo: "17318 / 10000 < sqrt 3" by (rule real_less_rsqrt) (simp add: power2_eq_square)
  have hi: "sqrt 3 < 17322 / 10000" by (rule real_less_lsqrt) (simp_all add: power2_eq_square)
  have v1: "25 * (2 - sqrt 3) =
      100 * (sin (real 5 / 5 * ([15, 30] ! 0 * pi / 180))) ^ 2 *
            (cos (real 5 / 10 * ([0, 90] ! 0 * pi / 180))) ^ 2"
  proof -
    have "real 5 / 5 * ([15, 30] ! 0 * pi / 180) = pi / 12" by simp
    then show ?thesis by (simp add: s12)
  qed
  have v2: "25 / 2 =
      100 * (sin (real 5 / 5 * ([15, 30] ! 1 * pi / 180))) ^ 2 *
            (cos (real 5 / 10 * ([0, 90] ! 1 * pi / 180))) ^ 2"
  proof -
    have "real 5 / 5 * ([15, 30] ! 1 * pi / 180) = pi / 6" by simp
    moreover have "real 5 / 10 * ([0, 90] ! 1 * pi / 180) = pi / 4" by simp
    ultimately show ?thesis by (simp add: sin_30 cos_45 power2_eq_square)
  qed
  have small: "25 * (2 - sqrt 3) < 10" using lo by simp
  from get_cfc_filter_then_round[of 5 "[0, 1, 2, 3, 4, 5]" 0 "[0, 90]" 0 "[15, 30]"
      "25 * (2 - sqrt 3)" "\<lparr>void_timestamps = []\<rparr>", OF _ _ _ v1] small
  obtain k :: int where k: "get_cfc ?c ! 5 ! 0 ! 0 = Fin (of_int k / 100)"
    "\<bar>of_int k - 100 * (25 * (2 - sqrt 3))\<bar> \<le> 1 / 2"
    by auto
  have e: "100 * (25 * (2 - sqrt 3)) = 5000 - 2500 * sqrt 3" by (simp add: algebra_simps)
  have "k = 670" using k(2) lo hi unfolding e by (rule nearest_int_670)
  with k(1) have c1: "get_cfc ?c ! 5 ! 0 ! 0 = Fin (67 / 10)" by simp
  from get_cfc_filter_then_round[of 5 "[0, 1, 2, 3, 4, 5]" 1 "[0, 90]" 1 "[15, 30]"
      "25 / 2" "\<lparr>void_timestamps = []\<rparr>", OF _ _ _ v2]
  have c2: "get_cfc ?c ! 5 ! 1 ! 1 = NaN" by simp
  from c1 c2 show ?thesis by simp
qed

section \<open>Coordinate bounds\<close>











section \<open>The empty time range\<close>

lemma get_time_empty: "tend < tstart div 1000 * 1000 \<Longrightarrow> get_time tstart tend = []"
  by (simp add: get_time_def rrule_daily_def rrule_iter.simps[of "tstart div 1000 * 1000" tend])

lemma get_nobs_no_time: "get_nobs p (Clouds_init [] lons lats msk) = Inl ValueError"
  by (simp add: get_nobs_def Clouds_init_fields split: list.splits)

text \<open>
  Claim C3. With \<open>tend < tstart\<close> the time axis is empty, and the construction does not
  complete: the constructor raises ValueError at the time bounds (an empty list of
  bounds is a one-dimensional array, not a two-dimensional one), and on a Clouds object
  with no time position \<open>get_nobs\<close>, and with it the dataset of the clouds group, raises
  ValueError at the maximum of the empty list of time positions.
\<close>

theorem empty_time_range_raises:
  "get_time 86400000 0 = [] \<and>
   get_time_bounds (get_time 86400000 0) = Inl ValueError \<and>
   DataTreeMaker_init 86400000 0 0 1 0 1 1 void = Inl ValueError \<and>
   get_nobs p (Clouds_init (get_time 86400000 0) lons lats msk) = Inl ValueError \<and>
   Clouds_get_dataset p (Clouds_init (get_time 86400000 0) lons lats msk) = Inl ValueError"
proof -
  have t: "get_time 86400000 0 = []" by (simp add: get_time_empty)
  have b: "get_time_bounds [] = Inl ValueError"
    by (simp add: get_time_bounds_def get_bounds_def DataArray2_def)
  have i: "DataTreeMaker_init 86400000 0 0 1 0 1 1 void = Inl ValueError"
    by (simp add: DataTreeMaker_init_def t b get_lon_def get_lat_def arange_def)
  have d: "Clouds_get_dataset p (Clouds_init [] lons lats msk) = Inl ValueError"
    by (simp add: Clouds_get_dataset_def get_nobs_no_time)
  show ?thesis by (simp add: t b i d get_nobs_no_time)
qed

section \<open>Observation counts on a single timestep\<close>

lemma nobs_value_single: "nobs_value lon_min lon_max 0 0 x y = NaN"
  by (simp add: nobs_value_def span_term_def np_divide_def fdeg2rad_def)

lemma map2_const_same: "map2 (\<lambda>x y. c) xs (map g xs) = map (\<lambda>_. c) xs"
  by (induction xs) auto

lemma nobs_plane_single:
  "nobs_plane p (Clouds_init tm lons lats msk) lon_min lon_max 0 0 =
     map (\<lambda>_. map (\<lambda>_. nan_to_uint8 p) lons) lats"
  by (simp add: nobs_plane_def Clouds_init_fields nobs_value_single
      zip_map_map zip_same_conv_map map2_const_same)

text \<open>
  Claim C4. With exactly one timestep \<open>tmax\<close> is 0 and nothing special-cases it: the
  span term is the quotient \<open>0 / 0\<close>, which numpy evaluates to NaN, and every
  observation count of the only plane is what the cast of NaN to uint8 gives.
\<close>

theorem get_nobs_single_timestep:
  "span_term lon_min lon_max 0 0 = NaN \<and>
   get_nobs p (Clouds_init [t0] (x # xs) lats msk) =
     Inr [map (\<lambda>_. map (\<lambda>_. nan_to_uint8 p) (x # xs)) lats]"
proof -
  have "assign_planes f [0..<1] (zeros3 0 1 (length lats) (length (x # xs))) = map f [0..<1]"
    for f :: "nat \<Rightarrow> 8 word array2"
    by (rule assign_planes_all) (simp add: zeros3_def)
  then show ?thesis
    by (simp add: span_term_def np_divide_def get_nobs_def Clouds_init_fields Let_def
        nobs_plane_single)
qed


section \<open>Shapes under masking\<close>

lemma mask_timestamps_attrs:
  "mask_timestamps m ds vm = Inr ds' \<Longrightarrow> attrs ds' = attrs ds \<and> time_coord ds' = time_coord ds"
  by (auto simp: mask_timestamps_def split: sum.splits)

lemma mask_timestamps_shapes:
  assumes t: "ds_getitem_time ds = Inr ts" and d: "distinct ts"
    and v: "\<forall>v\<in>set (void_timestamps m). 0 \<le> v \<and> v < int (length ts)"
    and k: "distinct (map fst vars_to_mask)"
    and n: "\<forall>n\<in>set (map fst vars_to_mask). map_of (data_vars ds) n \<noteq> None"
    and dk: "distinct (map fst (data_vars ds))"
    and sh: "\<forall>a\<in>set (map snd (data_vars ds)). is_shape3 (length ts) nlat nlon a"
  shows "\<exists>ds'. mask_timestamps m ds vars_to_mask = Inr ds' \<and>
     attrs ds' = attrs ds \<and> map fst (data_vars ds') = map fst (data_vars ds) \<and>
     (\<forall>a'\<in>set (map snd (data_vars ds')). is_shape3 (length ts) nlat nlon a')"
proof -
  have len: "\<forall>a\<in>set (map snd (data_vars ds)). length a = length ts"
    using sh by (simp add: is_shape3_iff)
  from mask_timestamps_result[OF t d v k n len] obtain ds' where ds':
    "mask_timestamps m ds vars_to_mask = Inr ds'" "attrs ds' = attrs ds"
    "map fst (data_vars ds') = map fst (data_vars ds)"
    "\<forall>n a. map_of (data_vars ds) n = Some a \<longrightarrow>
        (\<exists>a'. map_of (data_vars ds') n = Some a' \<and>
          (case map_of vars_to_mask n of
             None \<Rightarrow> a' = a
           | Some fill \<Rightarrow>
               length a' = length a \<and>
               (\<forall>k<length a. a' ! k =
                  (if int k \<in> set (void_timestamps m)
                   then map (map (\<lambda>_. fill)) (a ! k) else a ! k))))"
    by blast
  have "is_shape3 (length ts) nlat nlon a'" if "a' \<in> set (map snd (data_vars ds'))" for a'
  proof -
    from that obtain nm where nm: "(nm, a') \<in> set (data_vars ds')" by auto
    have dk': "distinct (map fst (data_vars ds'))" using dk ds'(3) by simp
    from nm dk' have m': "map_of (data_vars ds') nm = Some a'" by simp
    from nm have "nm \<in> set (map fst (data_vars ds'))" by force
    then have "nm \<in> fst ` set (data_vars ds)" using ds'(3) by simp
    then obtain a where a: "map_of (data_vars ds) nm = Some a"
      by (cases "map_of (data_vars ds) nm") (auto simp: map_of_eq_None_iff)
    then have "a \<in> set (map snd (data_vars ds))" by (force dest: map_of_SomeD)
    with sh have sa: "is_shape3 (length ts) nlat nlon a" by blast
    from ds'(4) a obtain a'' where a'': "map_of (data_vars ds') nm = Some a''"
      and c'': "case map_of vars_to_mask nm of
             None \<Rightarrow> a'' = a
           | Some fill \<Rightarrow>
               length a'' = length a \<and>
               (\<forall>k<length a. a'' ! k =
                  (if int k \<in> set (void_timestamps m)
                   then map (map (\<lambda>_. fill)) (a ! k) else a ! k))"
      by blast
    from a'' m' have ae: "a'' = a'" by simp
    note c = c''[unfolded ae]
    show ?thesis
    proof (cases "map_of vars_to_mask nm")
      case None
      with c sa show ?thesis by simp
    next
      case (Some fill)
      with c have l: "length a' = length a"
        and e: "\<forall>k<length a. a' ! k =
                  (if int k \<in> set (void_timestamps m)
                   then map (map (\<lambda>_. fill)) (a ! k) else a ! k)"
        by simp_all
      from sa l e show ?thesis by (simp add: is_shape3_iff)
    qed
  qed
  with ds' show ?thesis by blast
qed

section \<open>Sunshine duration and the radiation group\<close>

lemma linspace_length: "length (linspace a b n) = n"
  by (simp add: linspace_def)

lemma heart_mask_shape:
  "length (heart_mask rows cols) = rows \<and>
   (\<forall>j<rows. length (heart_mask rows cols ! j) = cols)"
  by (simp add: heart_mask_def Let_def linspace_length)

lemma get_sdu_eq:
  "get_sdu p r =
     map (\<lambda>i. map (map of_bool)
            (rotate p (heart_mask (length (Radiation.lat r)) (length (Radiation.lon r)))
               (360 * real i / real (length (Radiation.time r)))))
       [0..<length (Radiation.time r)]"
  by (simp add: get_sdu_def Let_def assign_planes_all zeros3_def)

lemma heart_mask_nth:
  assumes "1 < rows" and "1 < cols" and "j < rows" and "i < cols"
  shows "heart_mask rows cols ! j ! i \<longleftrightarrow>
     (12 / 10 * (- 1 + real i * (2 / real (cols - 1)))) ^ 2 +
     (5 * (12 / 10 * (1 - real j * (2 / real (rows - 1)))) / 4 -
        sqrt \<bar>12 / 10 * (- 1 + real i * (2 / real (cols - 1)))\<bar>) ^ 2 - 1 \<le> 0"
  using assms by (simp add: heart_mask_def Let_def linspace_def mult.commute)

text \<open>
  Claim C9, as the code has it. With a single timestep the only rotation angle is
  \<open>360 * 0 / 1 = 0\<close>, and the sunshine-duration field is what the rotation returns for the
  heart mask at that angle, cast to 0 and 1. It is the unrotated mask only if the
  rotation returns its input there, which the generator does not ensure.
\<close>

theorem get_sdu_single_timestep_is_rotation:
  "get_sdu p \<lparr>Radiation.time = [t0], lon = lons, lat = lats, mask = msk\<rparr> =
     [map (map of_bool) (rotate p (heart_mask (length lats) (length lons)) 0)]"
  by (simp add: get_sdu_eq)

lemma get_sdu_shape:
  assumes "\<forall>h a. map length (rotate p h a) = map length h"
  shows "is_shape3 (length (Radiation.time r)) (length (Radiation.lat r)) (length (Radiation.lon r))
           (get_sdu p r)"
proof -
  let ?h = "heart_mask (length (Radiation.lat r)) (length (Radiation.lon r))"
  have "length (rotate p ?h a) = length (Radiation.lat r) \<and>
        (\<forall>j<length (Radiation.lat r). length (rotate p ?h a ! j) = length (Radiation.lon r))" for a
  proof -
    from assms have e: "map length (rotate p ?h a) = map length ?h" by blast
    then have l: "length (rotate p ?h a) = length ?h" by (rule map_eq_imp_length_eq)
    moreover have "length (rotate p ?h a ! j) = length (?h ! j)" if "j < length ?h" for j
      using e l that by (metis nth_map)
    ultimately show ?thesis by (simp add: heart_mask_shape)
  qed
  then show ?thesis by (simp add: get_sdu_eq is_shape3_iff)
qed

lemma ds_getitem_time_first:
  "ds_getitem_time \<lparr>time_coord = None, data_vars = (nm, a) # rest, attrs = ats\<rparr> =
     Inr (map int [0..<length a])"
  by (simp add: ds_getitem_time_def)

lemma distinct_positions: "distinct (map int [0..<n])"
  by (simp add: distinct_map)

lemma Radiation_get_dataset_ok:
  assumes rot: "\<forall>h a. map length (rotate p h a) = map length h"
    and v: "\<forall>v\<in>set (void_timestamps (Radiation.mask r)). 0 \<le> v \<and> v < int (length (Radiation.time r))"
  shows "\<exists>ds. Radiation_get_dataset p r = Inr ds \<and>
      map fst (data_vars ds) = [''sdu''] \<and>
      (\<forall>a\<in>set (map snd (data_vars ds)).
         is_shape3 (length (Radiation.time r)) (length (Radiation.lat r)) (length (Radiation.lon r)) a)"
proof -
  let ?sdu = "map3 (\<lambda>v. F (Fin v)) (get_sdu p r)"
  let ?ds = "\<lparr>time_coord = None, data_vars = [(''sdu'', ?sdu)],
        attrs = [(''title'', ''Clouds''), (''variable_id'', ''sdu'')]\<rparr>"
  let ?ts = "map int [0..<length (Radiation.time r)]"
  have sh: "is_shape3 (length (Radiation.time r)) (length (Radiation.lat r)) (length (Radiation.lon r)) ?sdu"
    using get_sdu_shape[OF rot] by (rule map3_shape)
  then have l: "length ?sdu = length (Radiation.time r)" by (simp add: is_shape3_iff)
  have t: "ds_getitem_time ?ds = Inr ?ts"
    by (simp add: ds_getitem_time_first l)
  have "\<exists>ds'. mask_timestamps (Radiation.mask r) ?ds [(''sdu'', F NaN)] = Inr ds' \<and>
     attrs ds' = attrs ?ds \<and> map fst (data_vars ds') = map fst (data_vars ?ds) \<and>
     (\<forall>a'\<in>set (map snd (data_vars ds')).
        is_shape3 (length ?ts) (length (Radiation.lat r)) (length (Radiation.lon r)) a')"
    using t distinct_positions
  proof (rule mask_timestamps_shapes)
    show "\<forall>v\<in>set (void_timestamps (Radiation.mask r)). 0 \<le> v \<and> v < int (length ?ts)"
      using v by simp
    show "\<forall>a\<in>set (map snd (data_vars ?ds)).
        is_shape3 (length ?ts) (length (Radiation.lat r)) (length (Radiation.lon r)) a"
      using sh by simp
  qed simp_all
  then show ?thesis unfolding Radiation_get_dataset_def by auto
qed

lemma getitem_positions_cases:
  "getitem_positions xs is =
     (if \<forall>v\<in>set is. - int (length xs) \<le> v \<and> v < int (length xs)
      then Inr (map (\<lambda>v. xs ! nat (if v < 0 then v + int (length xs) else v)) is)
      else Inl IndexError)"
  by (induction "is") (auto simp: Let_def)

lemma get_sdu_length: "length (get_sdu p r) = length (Radiation.time r)"
  by (simp add: get_sdu_eq)

text \<open>
  Claim C10. For every input, \<open>Radiation_get_dataset\<close> either returns a dataset whose
  group attributes are title = "Clouds" and variable_id = "sdu", which it does exactly
  when every void position indexes the time axis (from either end, as a Python index), or
  raises IndexError.
\<close>

theorem Radiation_get_dataset_attrs:
  "(if \<forall>v\<in>set (void_timestamps (Radiation.mask r)).
         - int (length (Radiation.time r)) \<le> v \<and> v < int (length (Radiation.time r))
    then \<exists>ds. Radiation_get_dataset p r = Inr ds \<and>
           attrs ds = [(''title'', ''Clouds''), (''variable_id'', ''sdu'')]
    else Radiation_get_dataset p r = Inl IndexError)"
  by (simp add: Radiation_get_dataset_def mask_timestamps_def ds_getitem_time_first
      getitem_positions_cases map3_def get_sdu_length)

theorem Radiation_get_dataset_attrs_witness:
  "\<exists>ds. Radiation_get_dataset \<lparr>rotate = (\<lambda>h a. h), nan_to_uint8 = 0\<rparr>
           \<lparr>Radiation.time = [0, 86400000], lon = [0, 1], lat = [0],
            mask = \<lparr>void_timestamps = [1]\<rparr>\<rparr> = Inr ds \<and>
        attrs ds = [(''title'', ''Clouds''), (''variable_id'', ''sdu'')]"
  using Radiation_get_dataset_attrs[of
      "\<lparr>Radiation.time = [0, 86400000], lon = [0, 1], lat = [0],
            mask = \<lparr>void_timestamps = [1]\<rparr>\<rparr>"
      "\<lparr>rotate = (\<lambda>h a. h), nan_to_uint8 = 0\<rparr>"]
  by simp


section \<open>The clouds group and the assembled tree\<close>

lemma nobs_plane_shape:
  "length (nobs_plane p (Clouds_init tm lons lats msk) lo hi tmax t) = length lats \<and>
   (\<forall>j<length lats. length (nobs_plane p (Clouds_init tm lons lats msk) lo hi tmax t ! j) = length lons)"
  by (simp add: nobs_plane_def Clouds_init_fields)

lemma get_nobs_ok:
  assumes "tm \<noteq> []"
  shows "\<exists>a. get_nobs p (Clouds_init tm (x # xs) lats msk) = Inr a \<and>
             is_shape3 (length tm) (length lats) (length (x # xs)) a"
proof -
  have ne: "[0..<length tm] \<noteq> []" using assms by simp
  have ap: "assign_planes f [0..<length tm] (zeros3 0 (length tm) (length lats) (length (x # xs))) =
      map f [0..<length tm]" for f :: "nat \<Rightarrow> 8 word array2"
    by (rule assign_planes_all) (simp add: zeros3_def)
  obtain t0 ts where tt: "[0..<length tm] = t0 # ts" using ne by (cases "[0..<length tm]") auto
  have "get_nobs p (Clouds_init tm (x # xs) lats msk) =
      Inr (map (nobs_plane p (Clouds_init tm (x # xs) lats msk) (fold min xs x) (fold max xs x)
                 (fold max ts t0)) [0..<length tm])"
    using ap by (simp add: get_nobs_def Clouds_init_fields Let_def tt)
  moreover have "is_shape3 (length tm) (length lats) (length (x # xs))
      (map (nobs_plane p (Clouds_init tm (x # xs) lats msk) (fold min xs x) (fold max xs x)
                 (fold max ts t0)) [0..<length tm])"
    using nobs_plane_shape[of p tm "x # xs" lats msk] by (simp add: is_shape3_iff)
  ultimately show ?thesis by blast
qed

lemma Clouds_get_dataset_ok:
  assumes tm: "tm \<noteq> []" and lons: "lons \<noteq> []"
    and v: "\<forall>v\<in>set (void_timestamps msk). 0 \<le> v \<and> v < int (length tm)"
  shows "\<exists>ds. Clouds_get_dataset p (Clouds_init tm lons lats msk) = Inr ds \<and>
      attrs ds = [(''title'', ''Clouds''), (''variable_id'', ''cfc_dm'')] \<and>
      map fst (data_vars ds) = [''cfc_dm'', ''nobs'', ''quality''] \<and>
      (\<forall>a\<in>set (map snd (data_vars ds)). is_shape3 (length tm) (length lats) (length lons) a)"
proof -
  let ?c = "Clouds_init tm lons lats msk"
  from lons obtain x xs where xs: "lons = x # xs" by (cases lons) auto
  from get_nobs_ok[OF tm, of p x xs lats msk] obtain nobs where nobs:
    "get_nobs p ?c = Inr nobs" "is_shape3 (length tm) (length lats) (length lons) nobs"
    by (auto simp: xs)
  let ?cfc = "map3 F (get_cfc ?c)"
  let ?ds = "\<lparr>time_coord = None,
       data_vars = [(''cfc_dm'', ?cfc), (''nobs'', map3 U8 nobs), (''quality'', map3 U8 (get_quality ?c))],
       attrs = [(''title'', ''Clouds''), (''variable_id'', ''cfc_dm'')]\<rparr>"
  let ?ts = "map int [0..<length tm]"
  have s1: "is_shape3 (length tm) (length lats) (length lons) ?cfc"
    using get_cfc_shape by (rule map3_shape)
  have s2: "is_shape3 (length tm) (length lats) (length lons) (map3 U8 nobs)"
    using nobs(2) by (rule map3_shape)
  have s3: "is_shape3 (length tm) (length lats) (length lons) (map3 U8 (get_quality ?c))"
    using get_quality_shape[of ?c] by (simp add: map3_shape Clouds_init_fields)
  from s1 have l: "length ?cfc = length tm" by (simp add: is_shape3_iff)
  have t: "ds_getitem_time ?ds = Inr ?ts"
    by (simp add: ds_getitem_time_first l)
  have "\<exists>ds'. mask_timestamps msk ?ds [(''cfc_dm'', F NaN), (''nobs'', U8 0)] = Inr ds' \<and>
     attrs ds' = attrs ?ds \<and> map fst (data_vars ds') = map fst (data_vars ?ds) \<and>
     (\<forall>a'\<in>set (map snd (data_vars ds')). is_shape3 (length ?ts) (length lats) (length lons) a')"
    using t distinct_positions
  proof (rule mask_timestamps_shapes)
    show "\<forall>v\<in>set (void_timestamps msk). 0 \<le> v \<and> v < int (length ?ts)"
      using v by simp
    show "\<forall>a\<in>set (map snd (data_vars ?ds)). is_shape3 (length ?ts) (length lats) (length lons) a"
      using s1 s2 s3 by simp
  qed simp_all
  then show ?thesis by (simp add: Clouds_get_dataset_def nobs(1) Clouds_init_fields)
qed

lemma arange_nonempty:
  assumes "0 < d" "lo \<le> hi"
  shows "\<exists>xs. arange lo (hi + d) d = Inr xs \<and> xs \<noteq> []"
proof -
  have "1 \<le> (hi + d - lo) / d" using assms by (simp add: field_simps)
  then have "0 < \<lceil>(hi + d - lo) / d\<rceil>" by linarith
  then have "[0..<nat \<lceil>(hi + d - lo) / d\<rceil>] \<noteq> []" by simp
  then show ?thesis using assms(1) by (simp add: arange_def del: upt_eq_Nil_conv)
qed

lemma get_lon_nonempty:
  "0 < d \<Longrightarrow> lo \<le> hi \<Longrightarrow> \<exists>xs. get_lon lo hi d = Inr xs \<and> xs \<noteq> []"
  using arange_nonempty[of d lo hi] by (auto simp: get_lon_def)

lemma get_lat_nonempty:
  "0 < d \<Longrightarrow> lo \<le> hi \<Longrightarrow> \<exists>xs. get_lat lo hi d = Inr xs \<and> xs \<noteq> []"
  using arange_nonempty[of d lo hi] by (auto simp: get_lat_def)

lemma get_time_nonempty: "tstart \<le> tend \<Longrightarrow> get_time tstart tend \<noteq> []"
proof -
  assume "tstart \<le> tend"
  moreover have "tstart div 1000 * 1000 \<le> tstart" by simp
  ultimately have "tstart div 1000 * 1000 \<le> tend" by linarith
  then show ?thesis
    by (simp add: get_time_def rrule_daily_def rrule_iter.simps[of "tstart div 1000 * 1000" tend])
qed

lemma bounds_ok:
  "tm \<noteq> [] \<Longrightarrow> \<exists>b. get_time_bounds tm = Inr b"
  "xs \<noteq> [] \<Longrightarrow> \<exists>b. get_lon_bounds xs d = Inr b"
  "xs \<noteq> [] \<Longrightarrow> \<exists>b. get_lat_bounds xs d = Inr b"
  by (simp_all add: get_time_bounds_def get_lon_bounds_def get_lat_bounds_def get_bounds_def
      DataArray2_def)

lemma DataTreeMaker_init_ok:
  assumes "tstart \<le> tend" "0 < resol" "lon_min \<le> lon_max" "lat_min \<le> lat_max"
  shows "\<exists>m lons lats. DataTreeMaker_init tstart tend lon_min lon_max lat_min lat_max resol void = Inr m \<and>
     lons \<noteq> [] \<and> lats \<noteq> [] \<and> get_time tstart tend \<noteq> [] \<and>
     DataTreeMaker.time m = get_time tstart tend \<and>
     DataTreeMaker.lon m = lons \<and> DataTreeMaker.lat m = lats \<and>
     clouds m = Clouds_init (get_time tstart tend) lons lats \<lparr>void_timestamps = void\<rparr> \<and>
     radiation m = \<lparr>Radiation.time = get_time tstart tend, lon = lons, lat = lats,
                     mask = \<lparr>void_timestamps = void\<rparr>\<rparr>"
proof -
  from get_lon_nonempty[OF assms(2,3)] obtain lons where lons:
    "get_lon lon_min lon_max resol = Inr lons" "lons \<noteq> []" by blast
  from get_lat_nonempty[OF assms(2,4)] obtain lats where lats:
    "get_lat lat_min lat_max resol = Inr lats" "lats \<noteq> []" by blast
  have tm: "get_time tstart tend \<noteq> []" using assms(1) by (rule get_time_nonempty)
  from bounds_ok(1)[OF tm] obtain tb where tb: "get_time_bounds (get_time tstart tend) = Inr tb"
    by blast
  from bounds_ok(2)[OF lons(2)] obtain lonb where lonb: "get_lon_bounds lons resol = Inr lonb"
    by blast
  from bounds_ok(3)[OF lats(2)] obtain latb where latb: "get_lat_bounds lats resol = Inr latb"
    by blast
  show ?thesis
    using lons lats tm by (simp add: DataTreeMaker_init_def Let_def tb lonb latb)
qed

lemma get_data_tree_ok:
  assumes "tstart \<le> tend" and "0 < resol" and "lon_min \<le> lon_max" and "lat_min \<le> lat_max"
    and v: "\<forall>v\<in>set void. 0 \<le> v \<and> v < int (length (get_time tstart tend))"
    and rot: "\<forall>h a. map length (rotate p h a) = map length h"
  shows "\<exists>m tree.
     DataTreeMaker_init tstart tend lon_min lon_max lat_min lat_max resol void = Inr m \<and>
     get_data_tree p m = Inr tree \<and>
     root_time (tree_root tree) = get_time tstart tend \<and>
     fst ` set (data_vars (tree_clouds tree)) = {''cfc_dm'', ''nobs'', ''quality''} \<and>
     fst ` set (data_vars (tree_radiation tree)) = {''sdu''} \<and>
     (\<forall>a\<in>set (map snd (data_vars (tree_clouds tree)) @ map snd (data_vars (tree_radiation tree))).
        is_shape3 (length (root_time (tree_root tree))) (length (root_lat (tree_root tree)))
          (length (root_lon (tree_root tree))) a)"
proof -
  let ?tm = "get_time tstart tend"
  let ?msk = "\<lparr>void_timestamps = void\<rparr>"
  from DataTreeMaker_init_ok[OF assms(1-4), of void] obtain m lons lats where m:
    "DataTreeMaker_init tstart tend lon_min lon_max lat_min lat_max resol void = Inr m"
    "lons \<noteq> []" "lats \<noteq> []" "?tm \<noteq> []"
    "DataTreeMaker.time m = ?tm" "DataTreeMaker.lon m = lons" "DataTreeMaker.lat m = lats"
    "clouds m = Clouds_init ?tm lons lats ?msk"
    "radiation m = \<lparr>Radiation.time = ?tm, lon = lons, lat = lats, mask = ?msk\<rparr>"
    by blast
  have vm: "\<forall>v\<in>set (void_timestamps ?msk). 0 \<le> v \<and> v < int (length ?tm)"
    using v by simp
  from Clouds_get_dataset_ok[OF m(4) m(2) vm, of p lats] obtain cds where cds:
    "Clouds_get_dataset p (clouds m) = Inr cds"
    "map fst (data_vars cds) = [''cfc_dm'', ''nobs'', ''quality'']"
    "\<forall>a\<in>set (map snd (data_vars cds)). is_shape3 (length ?tm) (length lats) (length lons) a"
    by (auto simp: m(8))
  have vr: "\<forall>v\<in>set (void_timestamps (Radiation.mask (radiation m))).
      0 \<le> v \<and> v < int (length (Radiation.time (radiation m)))"
    using v by (simp add: m(9))
  from Radiation_get_dataset_ok[OF rot vr] obtain rds where rds:
    "Radiation_get_dataset p (radiation m) = Inr rds"
    "map fst (data_vars rds) = [''sdu'']"
    "\<forall>a\<in>set (map snd (data_vars rds)). is_shape3 (length ?tm) (length lats) (length lons) a"
    by (auto simp: m(9))
  let ?tree = "\<lparr>tree_root = get_root m, tree_clouds = cds, tree_radiation = rds\<rparr>"
  have gt: "get_data_tree p m = Inr ?tree"
    by (simp add: get_data_tree_def cds(1) rds(1))
  have rt: "root_time (tree_root ?tree) = ?tm" "root_lat (tree_root ?tree) = lats"
    "root_lon (tree_root ?tree) = lons"
    by (simp_all add: get_root_def m(5,6,7))
  have c2: "fst ` set (data_vars (tree_clouds ?tree)) = {''cfc_dm'', ''nobs'', ''quality''}"
    using arg_cong[OF cds(2), of set] by simp
  have r2: "fst ` set (data_vars (tree_radiation ?tree)) = {''sdu''}"
    using arg_cong[OF rds(2), of set] by simp
  have sh: "\<forall>a\<in>set (map snd (data_vars (tree_clouds ?tree)) @ map snd (data_vars (tree_radiation ?tree))).
        is_shape3 (length (root_time (tree_root ?tree))) (length (root_lat (tree_root ?tree)))
          (length (root_lon (tree_root ?tree))) a"
    unfolding rt using cds(3) rds(3) by auto
  from m(1) gt rt(1) c2 r2 sh show ?thesis by blast
qed

lemma get_time_zero: "get_time 0 0 = [0]"
proof -
  have "rrule_iter (0 + day_ms) 0 = []"
    by (subst rrule_iter.simps) (simp add: day_ms_def)
  then show ?thesis by (simp add: get_time_def rrule_daily_def rrule_iter.simps[of 0 0])
qed

text \<open>
  Claim C7. For valid construction parameters (\<open>tstart \<le> tend\<close>, a positive resolution,
  \<open>lon_min \<le> lon_max\<close>, \<open>lat_min \<le> lat_max\<close>, void positions within the time axis, a
  rotation that keeps the shape of its input) the constructor and \<open>get_data_tree\<close> return,
  the variables of the clouds group are cfc_dm, nobs and quality, the one of the
  radiation group is sdu, and every one of these fields has the shape (number of time values, number
  of latitudes, number of longitudes) of the root coordinates.
\<close>

theorem fields_have_grid_shape:
  assumes "tstart \<le> tend" and "0 < resol" and "lon_min \<le> lon_max" and "lat_min \<le> lat_max"
    and "\<forall>v\<in>set void. 0 \<le> v \<and> v < int (length (get_time tstart tend))"
    and "\<forall>h a. map length (rotate p h a) = map length h"
  shows "\<exists>m tree.
     DataTreeMaker_init tstart tend lon_min lon_max lat_min lat_max resol void = Inr m \<and>
     get_data_tree p m = Inr tree \<and>
     root_time (tree_root tree) = get_time tstart tend \<and>
     fst ` set (data_vars (tree_clouds tree)) = {''cfc_dm'', ''nobs'', ''quality''} \<and>
     fst ` set (data_vars (tree_radiation tree)) = {''sdu''} \<and>
     (\<forall>a\<in>set (map snd (data_vars (tree_clouds tree)) @ map snd (data_vars (tree_radiation tree))).
        is_shape3 (length (root_time (tree_root tree))) (length (root_lat (tree_root tree)))
          (length (root_lon (tree_root tree))) a)"
  using assms by (rule get_data_tree_ok)

theorem fields_have_grid_shape_witness:
  "\<exists>m tree.
     DataTreeMaker_init 0 0 0 1 0 0 1 [0] = Inr m \<and>
     get_data_tree \<lparr>rotate = (\<lambda>h a. h), nan_to_uint8 = 0\<rparr> m = Inr tree \<and>
     root_time (tree_root tree) = get_time 0 0 \<and>
     fst ` set (data_vars (tree_clouds tree)) = {''cfc_dm'', ''nobs'', ''quality''} \<and>
     fst ` set (data_vars (tree_radiation tree)) = {''sdu''} \<and>
     (\<forall>a\<in>set (map snd (data_vars (tree_clouds tree)) @ map snd (data_vars (tree_radiation tree))).
        is_shape3 (length (root_time (tree_root tree))) (length (root_lat (tree_root tree)))
          (length (root_lon (tree_root tree))) a)"
  by (rule fields_have_grid_shape) (simp_all add: get_time_zero)

end
